theory Spec2Isabelle
  imports Main
begin

section \<open>The server runtime of hyper-sam: \<open>src/control/server.mjs\<close>\<close>

text \<open>
  The module exports two functions. \<open>ssrDefaultProps\<close> builds the props object that the
  server hands to the root component; \<open>ssrDispatch\<close> builds the text of an inline event
  handler that records a click for later replay.

  JavaScript values are split in two kinds. A value that the caller owns (the state
  object, the dispatch function, the wire function, whatever \<open>wire()\<close> returns) is a
  handle of an arbitrary type \<open>'v\<close>: the module never looks inside it, and two handles are
  the same JavaScript value exactly when they are equal. An object that the module itself
  allocates is written out: its prototype and its own properties in insertion order.
\<close>

subsection \<open>Objects\<close>

datatype proto = NullProto | ObjectPrototype

datatype 'v jsval =
    Ext (handle: 'v)
  | Obj (proto: proto) (own: "(string \<times> 'v jsval) list")

text \<open>
  Writing a property: an own property that exists keeps its place and takes the new
  value, a new one is appended.
\<close>

fun put :: "string \<Rightarrow> 'a \<Rightarrow> (string \<times> 'a) list \<Rightarrow> (string \<times> 'a) list" where
  "put k v [] = [(k, v)]"
| "put k v ((k', v') # ps) = (if k = k' then (k, v) # ps else (k', v') # put k v ps)"

definition put_all :: "(string \<times> 'a) list \<Rightarrow> (string \<times> 'a) list \<Rightarrow> (string \<times> 'a) list" where
  "put_all ps qs = foldl (\<lambda>acc kv. put (fst kv) (snd kv) acc) ps qs"

text \<open>\<open>Object.create(null)\<close>: a fresh object with no prototype and no property.\<close>

definition Object_create_null :: "'v jsval" where
  "Object_create_null = Obj NullProto []"

text \<open>
  An object literal \<open>{k1: v1, ..., kn: vn}\<close>: a fresh object whose prototype is
  \<open>Object.prototype\<close>, the properties defined from left to right.
\<close>

definition object_literal :: "(string \<times> 'v jsval) list \<Rightarrow> 'v jsval" where
  "object_literal kvs = Obj ObjectPrototype (put_all [] kvs)"

text \<open>
  \<open>Object.assign(target, source)\<close> writes every own property of the source to the target,
  in the source's order, and returns the target. The module only calls it on two objects
  of its own; on a caller-owned value the model leaves the target as it is.
\<close>

fun Object_assign :: "'v jsval \<Rightarrow> 'v jsval \<Rightarrow> 'v jsval" where
  "Object_assign (Obj p ps) (Obj q qs) = Obj p (put_all ps qs)"
| "Object_assign t _ = t"

text \<open>
  Reading a property of a module-allocated object. \<open>get_prop\<close> is the own property;
  \<open>exposed_keys\<close> lists every name \<open>k\<close> for which \<open>k in obj\<close> holds: the own ones, then the
  ones inherited from the prototype. \<open>Object.prototype\<close> contributes its standard members,
  no prototype contributes nothing.
\<close>

definition get_prop :: "'v jsval \<Rightarrow> string \<Rightarrow> 'v jsval option" where
  "get_prop obj k = map_of (own obj) k"

fun inherited_keys :: "proto \<Rightarrow> string list" where
  "inherited_keys NullProto = []"
| "inherited_keys ObjectPrototype =
     [''constructor'', ''hasOwnProperty'', ''isPrototypeOf'', ''propertyIsEnumerable'',
      ''toLocaleString'', ''toString'', ''valueOf'', ''__proto__'',
      ''__defineGetter__'', ''__defineSetter__'', ''__lookupGetter__'', ''__lookupSetter__'']"

definition exposed_keys :: "'v jsval \<Rightarrow> string list" where
  "exposed_keys obj = map fst (own obj) @ inherited_keys (proto obj)"

subsection \<open>Calling a function of the caller\<close>

text \<open>
  The module calls one function it does not define: \<open>wire\<close>, with no argument. What such
  a call does is a parameter of the model, a \<open>behaviour\<close>: given the function's handle and
  the caller's world, it returns the value or the exception (\<open>Inl\<close>) together with the
  world after the call. The state records every call in \<open>called\<close>, so that "called exactly
  once" is a statement about the state.
\<close>

type_synonym ('v, 'w, 'x) behaviour = "'v \<Rightarrow> 'w \<Rightarrow> ('x + 'v) \<times> 'w"

record ('v, 'w) js_state =
  world :: 'w
  called :: "'v list"

definition call0 ::
  "('v, 'w, 'x) behaviour \<Rightarrow> 'v \<Rightarrow> ('v, 'w) js_state \<Rightarrow> ('x + 'v) \<times> ('v, 'w) js_state" where
  "call0 beh f s =
     (case beh f (world s) of
        (r, w') \<Rightarrow> (r, \<lparr>world = w', called = called s @ [f]\<rparr>))"

subsection \<open>\<open>ssrDefaultProps\<close>\<close>

text \<open>
  \<^verbatim>\<open>
  export const ssrDefaultProps = ({ state, dispatch, wire }) => {
      return Object.assign(Object.create(null), {
          state,
          actions: Object.create(null),
          dispatch,
          render: wire(),
          _wire: wire,
      });
  };
  \<close>
  The argument is destructured into its three fields. The target of \<open>Object.assign\<close> is
  allocated first, then the literal is evaluated field by field; the only step that can
  fail or have an effect is the call \<open>wire()\<close>, and its exception leaves the function.
\<close>

record 'v ssr_input =
  state :: 'v
  dispatch :: 'v
  wire :: 'v

definition ssrDefaultProps ::
  "('v, 'w, 'x) behaviour \<Rightarrow> 'v ssr_input \<Rightarrow> ('v, 'w) js_state
     \<Rightarrow> ('x + 'v jsval) \<times> ('v, 'w) js_state" where
  "ssrDefaultProps beh inp s =
     (let target = Object_create_null;
          actions_obj = Object_create_null
      in case call0 beh (wire inp) s of
           (Inl e, s') \<Rightarrow> (Inl e, s')
         | (Inr r, s') \<Rightarrow>
             (Inr (Object_assign target
                     (object_literal
                        [(''state'', Ext (state inp)),
                         (''actions'', actions_obj),
                         (''dispatch'', Ext (dispatch inp)),
                         (''render'', Ext r),
                         (''_wire'', Ext (wire inp))])),
              s'))"

text \<open>
  Two behaviours used in the examples below, over handles that are natural numbers. The
  first returns a new handle and changes the world; the second returns the very function
  that was called, as \<^verbatim>\<open>const wire = () => wire\<close> does.
\<close>

definition fresh_wire :: "(nat, nat, string) behaviour" where
  "fresh_wire f w = (Inr (f + 100), Suc w)"

definition self_wire :: "(nat, nat, string) behaviour" where
  "self_wire f w = (Inr f, w)"

section \<open>\<open>ssrDispatch\<close>: the server side\<close>

subsection \<open>JSON values and \<open>JSON.stringify\<close>\<close>

text \<open>
  The rest arguments of \<open>ssrDispatch\<close> are serialised with \<open>JSON.stringify\<close>. The values it
  is defined on are the JSON values. A string is a list of 8-bit code units. A number is
  an integer (JavaScript prints an integer of magnitude below \<open>10^21\<close> in plain decimal
  digits); fractions and exponents are outside the model. An object is the list of its
  own enumerable properties in enumeration order.

  \<open>JSON_stringify\<close> follows ECMA-262 \<open>SerializeJSONProperty\<close> without indentation:
  \<open>QuoteJSONString\<close> escapes the double quote, the backslash and the control characters
  below U+0020 (the short forms \<open>\b \f \n \r \t\<close>, otherwise \<open>\u00XX\<close> in lower-case
  hexadecimal); arrays and objects are written without any white space.
\<close>

datatype json =
    JNull
  | JBool bool
  | JNum int
  | JStr string
  | JArr "json list"
  | JObj "(string \<times> json) list"

definition digit_char :: "nat \<Rightarrow> char" where
  "digit_char d = char_of (48 + d)"

fun digits_of :: "nat \<Rightarrow> string" where
  "digits_of n = (if n < 10 then [digit_char n] else digits_of (n div 10) @ [digit_char (n mod 10)])"

declare digits_of.simps [simp del]

definition Number_toString :: "int \<Rightarrow> string" where
  "Number_toString n = (if n < 0 then CHR ''-'' # digits_of (nat (- n)) else digits_of (nat n))"

definition hex_digit :: "nat \<Rightarrow> char" where
  "hex_digit d = (if d < 10 then char_of (48 + d) else char_of (87 + d))"

definition json_escape :: "char \<Rightarrow> string" where
  "json_escape c =
     (if c = CHR 0x22 then [CHR 0x5C, CHR 0x22]
      else if c = CHR 0x5C then [CHR 0x5C, CHR 0x5C]
      else if c = CHR 0x08 then [CHR 0x5C, CHR ''b'']
      else if c = CHR 0x0C then [CHR 0x5C, CHR ''f'']
      else if c = CHR 0x0A then [CHR 0x5C, CHR ''n'']
      else if c = CHR 0x0D then [CHR 0x5C, CHR ''r'']
      else if c = CHR 0x09 then [CHR 0x5C, CHR ''t'']
      else if (of_char c :: nat) < 32 then
        [CHR 0x5C, CHR ''u'', CHR ''0'', CHR ''0'',
         hex_digit (of_char c div 16), hex_digit (of_char c mod 16)]
      else [c])"

definition QuoteJSONString :: "string \<Rightarrow> string" where
  "QuoteJSONString s = CHR 0x22 # concat (map json_escape s) @ [CHR 0x22]"

fun JSON_stringify :: "json \<Rightarrow> string"
  and stringify_elems :: "json list \<Rightarrow> string"
  and stringify_members :: "(string \<times> json) list \<Rightarrow> string" where
  "JSON_stringify JNull = ''null''"
| "JSON_stringify (JBool b) = (if b then ''true'' else ''false'')"
| "JSON_stringify (JNum n) = Number_toString n"
| "JSON_stringify (JStr s) = QuoteJSONString s"
| "JSON_stringify (JArr vs) = ''['' @ stringify_elems vs @ '']''"
| "JSON_stringify (JObj ms) = ''{'' @ stringify_members ms @ ''}''"
| "stringify_elems [] = []"
| "stringify_elems [v] = JSON_stringify v"
| "stringify_elems (v # w # vs) = JSON_stringify v @ '','' @ stringify_elems (w # vs)"
| "stringify_members [] = []"
| "stringify_members [(k, v)] = QuoteJSONString k @ '':'' @ JSON_stringify v"
| "stringify_members ((k, v) # m # ms) =
     QuoteJSONString k @ '':'' @ JSON_stringify v @ '','' @ stringify_members (m # ms)"

subsection \<open>The template literal\<close>

text \<open>
  \<^verbatim>\<open>
  export const ssrDispatch = (_name, _handler, ..._args) => `{
      const name = '${_name}';
      const handler = (${_handler});
      const args = ${JSON.stringify(_args)};
      window.dispatcher.toReplay.push({
          name,
          handler,
          args,
          target: this,
          event,
      });
  }`;
  \<close>
  The name is a string and is interpolated as it is. The handler is a function of the
  caller, a handle again; interpolating it takes its source text
  (\<open>Function.prototype.toString\<close>), which is the parameter \<open>src\<close>. The rest arguments form
  an array, serialised by \<open>JSON.stringify\<close>. \<open>handler_text\<close> is the value of the template
  literal, line by line. None of the three interpolations calls a function of the
  caller or writes anything, so \<open>ssrDispatch\<close> returns the state it was given.
\<close>

definition handler_text :: "('v \<Rightarrow> string) \<Rightarrow> string \<Rightarrow> 'v \<Rightarrow> json list \<Rightarrow> string" where
  "handler_text src n h as =
     ''{\<newline>'' @
     ''    const name = '' @ [CHR 0x27] @ n @ [CHR 0x27] @ '';\<newline>'' @
     ''    const handler = ('' @ src h @ '');\<newline>'' @
     ''    const args = '' @ JSON_stringify (JArr as) @ '';\<newline>'' @
     ''    window.dispatcher.toReplay.push({\<newline>'' @
     ''        name,\<newline>'' @
     ''        handler,\<newline>'' @
     ''        args,\<newline>'' @
     ''        target: this,\<newline>'' @
     ''        event,\<newline>'' @
     ''    });\<newline>'' @
     ''}''"

definition ssrDispatch ::
  "('v \<Rightarrow> string) \<Rightarrow> string \<Rightarrow> 'v \<Rightarrow> json list \<Rightarrow> ('v, 'w) js_state
     \<Rightarrow> string \<times> ('v, 'w) js_state" where
  "ssrDispatch src n h as s = (handler_text src n h as, s)"

section \<open>The generated handler in the browser\<close>

text \<open>
  The text that \<open>ssrDispatch\<close> returns becomes the body of an inline event handler: the
  browser compiles it as the body of a function of one parameter \<open>event\<close> and calls it
  with \<open>this\<close> bound to the element. What the text does is therefore fixed by the
  JavaScript grammar, not by the module; the definitions below are an interpreter for
  the statements that the template consists of. A text is read to one of three results:
  \<open>Read v r\<close> (the construct has value \<open>v\<close>, the text \<open>r\<close> follows it), \<open>SyntaxError\<close> (the
  text cannot be compiled, so the handler never runs) and \<open>Unmodelled\<close> (the text leaves
  the statements interpreted here; nothing is said about it).
\<close>

datatype 'a reading = Read 'a string | SyntaxError | Unmodelled

fun bind_reading :: "'a reading \<Rightarrow> ('a \<Rightarrow> string \<Rightarrow> 'b reading) \<Rightarrow> 'b reading" where
  "bind_reading (Read v r) f = f v r"
| "bind_reading SyntaxError f = SyntaxError"
| "bind_reading Unmodelled f = Unmodelled"

definition map_result :: "('a \<Rightarrow> 'b) \<Rightarrow> 'a reading \<Rightarrow> 'b reading" where
  "map_result g x = bind_reading x (\<lambda>v r. Read (g v) r)"

fun expect :: "string \<Rightarrow> string \<Rightarrow> string option" where
  "expect [] t = Some t"
| "expect (c # cs) [] = None"
| "expect (c # cs) (d # ds) = (if c = d then expect cs ds else None)"

definition expecting :: "string \<Rightarrow> string \<Rightarrow> unit reading" where
  "expecting p t = (case expect p t of Some r \<Rightarrow> Read () r | None \<Rightarrow> Unmodelled)"

subsection \<open>String literals\<close>

text \<open>
  \<open>read_literal q t\<close> reads a string literal whose opening quote \<open>q\<close> has been consumed.
  The literal ends at the first quote \<open>q\<close> that is not escaped. A line feed or a carriage
  return inside it, or the end of the text, is a syntax error. A backslash starts an
  escape: the single-character escapes and \<open>\uXXXX\<close> below 256 are interpreted, every
  other escape is left unmodelled. Any other character stands for itself.
\<close>

definition single_escape :: "char \<Rightarrow> char option" where
  "single_escape e =
     (if e = CHR 0x27 then Some (CHR 0x27)
      else if e = CHR 0x22 then Some (CHR 0x22)
      else if e = CHR 0x5C then Some (CHR 0x5C)
      else if e = CHR ''b'' then Some (CHR 0x08)
      else if e = CHR ''f'' then Some (CHR 0x0C)
      else if e = CHR ''n'' then Some (CHR 0x0A)
      else if e = CHR ''r'' then Some (CHR 0x0D)
      else if e = CHR ''t'' then Some (CHR 0x09)
      else if e = CHR ''v'' then Some (CHR 0x0B)
      else None)"

definition hex_value :: "char \<Rightarrow> nat option" where
  "hex_value c =
     (let n = (of_char c :: nat) in
      if 48 \<le> n \<and> n \<le> 57 then Some (n - 48)
      else if 97 \<le> n \<and> n \<le> 102 then Some (n - 87)
      else if 65 \<le> n \<and> n \<le> 70 then Some (n - 55)
      else None)"

definition hex4 :: "char \<Rightarrow> char \<Rightarrow> char \<Rightarrow> char \<Rightarrow> nat option" where
  "hex4 a b c d =
     (case (hex_value a, hex_value b, hex_value c, hex_value d) of
        (Some x3, Some x2, Some x1, Some x0) \<Rightarrow> Some (4096 * x3 + 256 * x2 + 16 * x1 + x0)
      | _ \<Rightarrow> None)"

fun read_literal :: "char \<Rightarrow> string \<Rightarrow> string reading" where
  "read_literal q [] = SyntaxError"
| "read_literal q (c # cs) =
     (if c = q then Read [] cs
      else if c = CHR 0x0A \<or> c = CHR 0x0D then SyntaxError
      else if c = CHR 0x5C then
        (case cs of
           [] \<Rightarrow> SyntaxError
         | e # es \<Rightarrow>
             (case single_escape e of
                Some v \<Rightarrow> map_result (Cons v) (read_literal q es)
              | None \<Rightarrow>
                  (if e = CHR ''u'' then
                     (case es of
                        a # b # x # y # rest \<Rightarrow>
                          (case hex4 a b x y of
                             Some n \<Rightarrow>
                               if n < 256 then map_result (Cons (char_of n)) (read_literal q rest)
                               else Unmodelled
                           | None \<Rightarrow> Unmodelled)
                      | _ \<Rightarrow> Unmodelled)
                   else Unmodelled)))
      else map_result (Cons c) (read_literal q cs))"

subsection \<open>Numbers and keywords\<close>

text \<open>
  A decimal integer literal is \<open>0\<close> or a non-zero digit followed by digits, with an
  optional unary minus in front. Only integers up to \<open>MAX_SAFE_INTEGER\<close> are read (beyond
  it a double rounds), and \<open>-0\<close> is not an integer. A number or a keyword is accepted
  only when a comma or a closing bracket follows it, as is always the case inside the
  array that \<open>JSON.stringify\<close> writes.
\<close>

definition is_digit :: "char \<Rightarrow> bool" where
  "is_digit c = (48 \<le> (of_char c :: nat) \<and> (of_char c :: nat) \<le> 57)"

definition digit_value :: "char \<Rightarrow> int" where
  "digit_value c = int (of_char c) - 48"

fun read_more :: "int \<Rightarrow> string \<Rightarrow> int \<times> string" where
  "read_more acc [] = (acc, [])"
| "read_more acc (c # cs) =
     (if is_digit c then read_more (10 * acc + digit_value c) cs else (acc, c # cs))"

definition read_digits :: "string \<Rightarrow> (int \<times> string) option" where
  "read_digits t =
     (case t of
        [] \<Rightarrow> None
      | c # cs \<Rightarrow>
          if \<not> is_digit c then None
          else if c = CHR ''0'' \<and> (case cs of [] \<Rightarrow> False | d # ds \<Rightarrow> is_digit d) then None
          else Some (read_more 0 t))"

definition MAX_SAFE_INTEGER :: int where
  "MAX_SAFE_INTEGER = 9007199254740991"

definition read_number :: "string \<Rightarrow> json reading" where
  "read_number t =
     (case t of
        [] \<Rightarrow> Unmodelled
      | c # cs \<Rightarrow>
          if c = CHR ''-'' then
            (case read_digits cs of
               Some (n, r) \<Rightarrow>
                 if n = 0 \<or> MAX_SAFE_INTEGER < n then Unmodelled else Read (JNum (- n)) r
             | None \<Rightarrow> Unmodelled)
          else
            (case read_digits t of
               Some (n, r) \<Rightarrow> if MAX_SAFE_INTEGER < n then Unmodelled else Read (JNum n) r
             | None \<Rightarrow> Unmodelled))"

definition read_keyword :: "string \<Rightarrow> json reading" where
  "read_keyword t =
     (case expect ''null'' t of
        Some r \<Rightarrow> Read JNull r
      | None \<Rightarrow>
          (case expect ''true'' t of
             Some r \<Rightarrow> Read (JBool True) r
           | None \<Rightarrow>
               (case expect ''false'' t of
                  Some r \<Rightarrow> Read (JBool False) r
                | None \<Rightarrow> Unmodelled)))"

definition delim :: "string \<Rightarrow> bool" where
  "delim r = (case r of [] \<Rightarrow> False | c # cs \<Rightarrow> c = CHR '','' \<or> c = CHR '']'' \<or> c = CHR ''}'')"

definition delimited :: "'a reading \<Rightarrow> 'a reading" where
  "delimited x = bind_reading x (\<lambda>v r. if delim r then Read v r else Unmodelled)"

subsection \<open>Array and object literals\<close>

text \<open>
  An object literal defines its members from left to right. A member whose key is
  \<open>__proto__\<close> is not a property: it sets the prototype of the new object when its value
  is an object or \<open>null\<close> (the result is then no JSON value: unmodelled) and is ignored
  otherwise; two such members are a syntax error (ECMA-262, B.3.1).
\<close>

fun define_members ::
  "(string \<times> json) list \<Rightarrow> (string \<times> json) list \<Rightarrow> (string \<times> json) list option" where
  "define_members acc [] = Some acc"
| "define_members acc ((k, v) # ms) =
     (if k = ''__proto__'' then
        (case v of
           JNull \<Rightarrow> None
         | JArr xs \<Rightarrow> None
         | JObj ps \<Rightarrow> None
         | _ \<Rightarrow> define_members acc ms)
      else define_members (put k v acc) ms)"

definition make_object :: "(string \<times> json) list \<Rightarrow> string \<Rightarrow> json reading" where
  "make_object ms r =
     (if 1 < count_list (map fst ms) ''__proto__'' then SyntaxError
      else case define_members [] ms of
             None \<Rightarrow> Unmodelled
           | Some ps \<Rightarrow> Read (JObj ps) r)"

text \<open>
  The literals nest, so the reader takes fuel; \<open>read_array\<close> gives it the length of the
  text, which is always enough (\<open>read_back\<close> below).
\<close>

fun read_value :: "nat \<Rightarrow> string \<Rightarrow> json reading"
  and read_elems :: "nat \<Rightarrow> string \<Rightarrow> json list reading"
  and read_members :: "nat \<Rightarrow> string \<Rightarrow> (string \<times> json) list reading" where
  "read_value 0 t = Unmodelled"
| "read_value (Suc k) [] = Unmodelled"
| "read_value (Suc k) (c # cs) =
     (if c = CHR 0x22 then map_result JStr (read_literal (CHR 0x22) cs)
      else if c = CHR ''['' then
        (case cs of
           [] \<Rightarrow> Unmodelled
         | d # ds \<Rightarrow> if d = CHR '']'' then Read (JArr []) ds else map_result JArr (read_elems k cs))
      else if c = CHR ''{'' then
        (case cs of
           [] \<Rightarrow> Unmodelled
         | d # ds \<Rightarrow>
             if d = CHR ''}'' then Read (JObj []) ds
             else bind_reading (read_members k cs) make_object)
      else if c = CHR ''-'' \<or> is_digit c then delimited (read_number (c # cs))
      else delimited (read_keyword (c # cs)))"
| "read_elems 0 t = Unmodelled"
| "read_elems (Suc k) t =
     bind_reading (read_value k t)
       (\<lambda>v r. case r of
                 [] \<Rightarrow> Unmodelled
               | c # cs \<Rightarrow>
                   if c = CHR '','' then map_result (Cons v) (read_elems k cs)
                   else if c = CHR '']'' then Read [v] cs
                   else Unmodelled)"
| "read_members 0 t = Unmodelled"
| "read_members (Suc k) [] = Unmodelled"
| "read_members (Suc k) (c # cs) =
     (if c = CHR 0x22 then
        bind_reading (read_literal (CHR 0x22) cs)
          (\<lambda>key r. case r of
                     [] \<Rightarrow> Unmodelled
                   | d # ds \<Rightarrow>
                       if d = CHR '':'' then
                         bind_reading (read_value k ds)
                           (\<lambda>v r'. case r' of
                                      [] \<Rightarrow> Unmodelled
                                    | e # es \<Rightarrow>
                                        if e = CHR '','' then
                                          map_result (Cons (key, v)) (read_members k es)
                                        else if e = CHR ''}'' then Read [(key, v)] es
                                        else Unmodelled)
                       else Unmodelled)
      else Unmodelled)"

definition read_array :: "string \<Rightarrow> json list reading" where
  "read_array t =
     bind_reading (read_value (length t) t)
       (\<lambda>v r. case v of JArr xs \<Rightarrow> Read xs r | _ \<Rightarrow> Unmodelled)"

subsection \<open>The replay queue and the handler body\<close>

text \<open>
  A Replay Entry is the object that the handler pushes. The page state holds the queue
  \<open>window.dispatcher.toReplay\<close>: \<open>None\<close> while no such array exists (the push then throws
  a \<open>TypeError\<close>), otherwise the entries, oldest first. Whatever else the page holds is the
  extension part of the record, which the handler never touches.
\<close>

record ('f, 't, 'e) replay_entry =
  name :: string
  handler :: 'f
  args :: "json list"
  target :: 't
  event :: 'e

record ('f, 't, 'e) page =
  toReplay :: "('f, 't, 'e) replay_entry list option"

datatype js_error = TypeError

datatype 'p outcome = Completed 'p | Threw js_error 'p | NotCompiled | NotModelled

text \<open>
  One block of the template: the three \<open>const\<close> declarations and the push. The name is a
  string literal in single quotes. The handler is an expression in parentheses; how the
  engine reads a function expression is the parameter \<open>rd\<close>, which returns the function
  value and the text after the expression. Evaluating a function expression creates
  the function and does not call it. The arguments are an array literal. The three
  initialisers have no effect, so the block is read to the triple of their values and
  its only effect is the push, done by \<open>exec_blocks\<close>.

  A handler body is a sequence of such blocks. It is compiled as a whole before any
  of it runs: a syntax error anywhere means that nothing is pushed.
\<close>

type_synonym 'f block = "string \<times> 'f \<times> json list"

definition parse_block :: "(string \<Rightarrow> 'f reading) \<Rightarrow> string \<Rightarrow> 'f block reading" where
  "parse_block rd t =
     bind_reading (expecting (''{\<newline>'' @ ''    const name = '' @ [CHR 0x27]) t) (\<lambda>_ t1.
     bind_reading (read_literal (CHR 0x27) t1) (\<lambda>n t2.
     bind_reading (expecting ('';\<newline>'' @ ''    const handler = ('') t2) (\<lambda>_ t3.
     bind_reading (rd t3) (\<lambda>f t4.
     bind_reading (expecting ('');\<newline>'' @ ''    const args = '') t4) (\<lambda>_ t5.
     bind_reading (read_array t5) (\<lambda>as t6.
     bind_reading
       (expecting
          ('';\<newline>'' @
           ''    window.dispatcher.toReplay.push({\<newline>'' @
           ''        name,\<newline>'' @
           ''        handler,\<newline>'' @
           ''        args,\<newline>'' @
           ''        target: this,\<newline>'' @
           ''        event,\<newline>'' @
           ''    });\<newline>'' @
           ''}'') t6) (\<lambda>_ t7.
     Read (n, f, as) t7)))))))"

fun parse_body :: "nat \<Rightarrow> (string \<Rightarrow> 'f reading) \<Rightarrow> string \<Rightarrow> 'f block list reading" where
  "parse_body 0 rd t = Unmodelled"
| "parse_body (Suc k) rd t =
     bind_reading (parse_block rd t)
       (\<lambda>b r. if r = [] then Read [b] [] else map_result (Cons b) (parse_body k rd r))"

definition push_entry ::
  "('f, 't, 'e) replay_entry \<Rightarrow> ('f, 't, 'e, 'm) page_scheme
     \<Rightarrow> ('f, 't, 'e, 'm) page_scheme outcome" where
  "push_entry e pg =
     (case toReplay pg of
        None \<Rightarrow> Threw TypeError pg
      | Some q \<Rightarrow> Completed (pg\<lparr>toReplay := Some (q @ [e])\<rparr>))"

fun exec_blocks ::
  "'t \<Rightarrow> 'e \<Rightarrow> 'f block list \<Rightarrow> ('f, 't, 'e, 'm) page_scheme
     \<Rightarrow> ('f, 't, 'e, 'm) page_scheme outcome" where
  "exec_blocks el ev [] pg = Completed pg"
| "exec_blocks el ev ((n, f, as) # bs) pg =
     (case push_entry \<lparr>name = n, handler = f, args = as, target = el, event = ev\<rparr> pg of
        Completed pg' \<Rightarrow> exec_blocks el ev bs pg'
      | other \<Rightarrow> other)"

text \<open>
  \<open>run_handler rd t el ev pg\<close>: the event \<open>ev\<close> fires on the element \<open>el\<close> whose inline
  handler has the body \<open>t\<close>, in the page \<open>pg\<close>.
\<close>

definition run_handler ::
  "(string \<Rightarrow> 'f reading) \<Rightarrow> string \<Rightarrow> 't \<Rightarrow> 'e \<Rightarrow> ('f, 't, 'e, 'm) page_scheme
     \<Rightarrow> ('f, 't, 'e, 'm) page_scheme outcome" where
  "run_handler rd t el ev pg =
     (case parse_body (length t) rd t of
        Read bs r \<Rightarrow> exec_blocks el ev bs pg
      | SyntaxError \<Rightarrow> NotCompiled
      | Unmodelled \<Rightarrow> NotModelled)"

subsection \<open>The inputs on which the template reads back as written\<close>

text \<open>
  A name reads back as itself when it has no single quote, no backslash and no line
  break. A JSON value reads back as itself when its integers are safe integers and the
  keys of each object are distinct (as the keys of an object are) and none of them is
  \<open>__proto__\<close>.
\<close>

definition plain_name :: "string \<Rightarrow> bool" where
  "plain_name n =
     (\<forall>c \<in> set n. c \<noteq> CHR 0x27 \<and> c \<noteq> CHR 0x5C \<and> c \<noteq> CHR 0x0A \<and> c \<noteq> CHR 0x0D)"

fun plain_json :: "json \<Rightarrow> bool"
  and plain_elems :: "json list \<Rightarrow> bool"
  and plain_members :: "(string \<times> json) list \<Rightarrow> bool" where
  "plain_json JNull = True"
| "plain_json (JBool b) = True"
| "plain_json (JNum n) = (\<bar>n\<bar> \<le> MAX_SAFE_INTEGER)"
| "plain_json (JStr s) = True"
| "plain_json (JArr vs) = plain_elems vs"
| "plain_json (JObj ms) =
     (distinct (map fst ms) \<and> ''__proto__'' \<notin> set (map fst ms) \<and> plain_members ms)"
| "plain_elems [] = True"
| "plain_elems (v # vs) = (plain_json v \<and> plain_elems vs)"
| "plain_members [] = True"
| "plain_members ((k, v) # ms) = (plain_json v \<and> plain_members ms)"

fun scalar :: "json \<Rightarrow> bool" where
  "scalar JNull = True"
| "scalar (JBool b) = True"
| "scalar (JNum n) = True"
| "scalar v = False"

text \<open>
  In the examples a function is the string of its source text (\<open>text_of\<close>), and the
  engine knows one function expression, the handler of the README's dispatch example.
\<close>

definition text_of :: "string \<Rightarrow> string" where
  "text_of h = h"

definition example_reader :: "string \<Rightarrow> string reading" where
  "example_reader t =
     (case expect ''function(event, action) { action(); }'' t of
        Some r \<Rightarrow> Read ''function(event, action) { action(); }'' r
      | None \<Rightarrow> Unmodelled)"

section \<open>Reading back what was written\<close>

text \<open>
  The lemmas of this section show that the reader of the previous section returns what
  \<open>ssrDispatch\<close> wrote: a plain name inside its quotes, a string quoted by
  \<open>QuoteJSONString\<close>, an integer printed by \<open>Number_toString\<close>, a plain JSON value
  serialised by \<open>JSON_stringify\<close>, and at last the whole template.
\<close>

subsection \<open>Fixed text and string literals\<close>

lemma expect_append: "expect p (p @ r) = Some r"
  by (induction p) simp_all

lemma expecting_append: "expecting p (p @ r) = Read () r"
  by (simp add: expecting_def expect_append)

lemma map_result_Read: "map_result g (Read v r) = Read (g v) r"
  by (simp add: map_result_def)

lemma read_literal_plain:
  assumes "\<forall>c \<in> set n. c \<noteq> q \<and> c \<noteq> CHR 0x0A \<and> c \<noteq> CHR 0x0D \<and> c \<noteq> CHR 0x5C"
  shows "read_literal q (n @ q # r) = Read n r"
  using assms by (induction n) (simp_all add: map_result_Read)

lemma hex_value_hex_digit: "d < 16 \<Longrightarrow> hex_value (hex_digit d) = Some d"
  by (simp add: hex_value_def hex_digit_def Let_def)

lemma hex_value_zero: "hex_value (CHR ''0'') = Some 0"
  by (simp add: hex_value_def)

lemma hex4_control:
  assumes "n < 256"
  shows "hex4 (CHR ''0'') (CHR ''0'') (hex_digit (n div 16)) (hex_digit (n mod 16)) = Some n"
proof -
  have "n div 16 < 16" using assms by simp
  moreover have "n mod 16 < 16" by simp
  ultimately show ?thesis
    by (simp add: hex4_def hex_value_zero hex_value_hex_digit)
qed

lemma of_char_less_256: "(of_char c :: nat) < 256"
  by (cases c) simp

lemma read_literal_json_escape:
  "read_literal (CHR 0x22) (json_escape c @ t) = map_result (Cons c) (read_literal (CHR 0x22) t)"
proof (cases "c = CHR 0x22 \<or> c = CHR 0x5C \<or> c = CHR 0x08 \<or> c = CHR 0x0C \<or> c = CHR 0x0A
    \<or> c = CHR 0x0D \<or> c = CHR 0x09")
  case True
  then show ?thesis
    by (auto simp add: json_escape_def single_escape_def)
next
  case False
  show ?thesis
  proof (cases "(of_char c :: nat) < 32")
    case True
    have h: "hex4 (CHR ''0'') (CHR ''0'') (hex_digit (of_char c div 16)) (hex_digit (of_char c mod 16))
               = Some (of_char c)"
      by (rule hex4_control) (rule of_char_less_256)
    from False True show ?thesis
      by (simp add: json_escape_def single_escape_def h of_char_less_256)
  next
    case ge: False
    with False show ?thesis
      by (simp add: json_escape_def)
  qed
qed

lemma read_literal_quoted:
  "read_literal (CHR 0x22) (concat (map json_escape s) @ CHR 0x22 # r) = Read s r"
  by (induction s) (simp_all add: read_literal_json_escape map_result_Read)

subsection \<open>Decimal digits\<close>

lemma char_of_48: "char_of (48 :: nat) = CHR ''0''"
proof -
  have "char_of (of_char (CHR ''0'') :: nat) = CHR ''0''" by (rule char_of_char)
  then show ?thesis by simp
qed

lemma digit_char_literal:
  "digit_char 0 = CHR ''0''" "digit_char 1 = CHR ''1''" "digit_char 2 = CHR ''2''"
  "digit_char 3 = CHR ''3''" "digit_char 4 = CHR ''4''" "digit_char 5 = CHR ''5''"
  "digit_char 6 = CHR ''6''" "digit_char 7 = CHR ''7''" "digit_char 8 = CHR ''8''"
  "digit_char 9 = CHR ''9''" "digit_char (Suc 0) = CHR ''1''"
  using char_of_char [of "CHR ''0''", where ?'a = nat] char_of_char [of "CHR ''1''", where ?'a = nat]
    char_of_char [of "CHR ''2''", where ?'a = nat] char_of_char [of "CHR ''3''", where ?'a = nat]
    char_of_char [of "CHR ''4''", where ?'a = nat] char_of_char [of "CHR ''5''", where ?'a = nat]
    char_of_char [of "CHR ''6''", where ?'a = nat] char_of_char [of "CHR ''7''", where ?'a = nat]
    char_of_char [of "CHR ''8''", where ?'a = nat] char_of_char [of "CHR ''9''", where ?'a = nat]
  by (simp_all add: digit_char_def)

lemma is_digit_digit_char: "d < 10 \<Longrightarrow> is_digit (digit_char d)"
  by (simp add: is_digit_def digit_char_def)

lemma digit_value_digit_char: "d < 10 \<Longrightarrow> digit_value (digit_char d) = int d"
  by (simp add: digit_value_def digit_char_def)

lemma digit_char_zero_iff: "d < 10 \<Longrightarrow> digit_char d = CHR ''0'' \<longleftrightarrow> d = 0"
proof
  assume "d < 10" and "digit_char d = CHR ''0''"
  then have "digit_value (digit_char d) = digit_value (CHR ''0'')" by simp
  with \<open>d < 10\<close> show "d = 0" by (simp add: digit_value_digit_char) (simp add: digit_value_def)
next
  assume "d = 0" then show "digit_char d = CHR ''0''" by (simp add: digit_char_def char_of_48)
qed

lemma digits_of_nonempty: "digits_of n \<noteq> []"
  by (subst digits_of.simps) simp

lemma hd_digits_of_digit: "is_digit (hd (digits_of n))"
proof (induction n rule: digits_of.induct)
  case (1 n)
  show ?case
  proof (cases "n < 10")
    case True
    then show ?thesis by (subst digits_of.simps) (simp add: is_digit_digit_char)
  next
    case False
    with 1 show ?thesis by (subst digits_of.simps) (simp add: digits_of_nonempty)
  qed
qed

lemma hd_digits_of_zero: "hd (digits_of n) = CHR ''0'' \<longleftrightarrow> n = 0"
proof (induction n rule: digits_of.induct)
  case (1 n)
  show ?case
  proof (cases "n < 10")
    case True
    then show ?thesis by (subst digits_of.simps) (simp add: digit_char_zero_iff)
  next
    case False
    then have "n div 10 \<noteq> 0" by simp
    with 1 False show ?thesis by (subst digits_of.simps) (simp add: digits_of_nonempty)
  qed
qed

lemma read_more_digits_of:
  "read_more acc (digits_of n @ r) = read_more (acc * 10 ^ length (digits_of n) + int n) r"
proof (induction n arbitrary: acc r rule: digits_of.induct)
  case (1 n)
  show ?case
  proof (cases "n < 10")
    case True
    then show ?thesis
      by (subst (1 2) digits_of.simps)
        (simp add: is_digit_digit_char digit_value_digit_char mult.commute)
  next
    case False
    have m: "n mod 10 < 10" by simp
    have "read_more acc (digits_of n @ r)
            = read_more acc (digits_of (n div 10) @ digit_char (n mod 10) # r)"
      using False by (subst digits_of.simps) simp
    also have "\<dots> = read_more (acc * 10 ^ length (digits_of (n div 10)) + int (n div 10))
                        (digit_char (n mod 10) # r)"
      using 1 False by simp
    also have "\<dots> = read_more (10 * (acc * 10 ^ length (digits_of (n div 10)) + int (n div 10))
                          + int (n mod 10)) r"
      using m by (simp add: is_digit_digit_char digit_value_digit_char)
    also have "10 * (acc * 10 ^ length (digits_of (n div 10)) + int (n div 10)) + int (n mod 10)
                 = acc * 10 ^ length (digits_of n) + int n"
    proof -
      have "length (digits_of n) = Suc (length (digits_of (n div 10)))"
        using False by (subst digits_of.simps) simp
      moreover have "int n = 10 * int (n div 10) + int (n mod 10)"
        by (simp add: zdiv_int zmod_int)
      ultimately show ?thesis by (simp add: algebra_simps)
    qed
    finally show ?thesis .
  qed
qed

lemma delim_not_digit: "delim r \<Longrightarrow> read_more acc r = (acc, r)"
  by (cases r) (auto simp add: delim_def is_digit_def)

lemma read_digits_digits_of:
  assumes "delim r"
  shows "read_digits (digits_of n @ r) = Some (int n, r)"
proof -
  obtain c cs where cs: "digits_of n = c # cs"
    using digits_of_nonempty [of n] by (cases "digits_of n") auto
  have c: "is_digit c" using hd_digits_of_digit [of n] cs by simp
  have more: "read_more 0 (digits_of n @ r) = (int n, r)"
    by (simp add: read_more_digits_of delim_not_digit [OF assms])
  show ?thesis
  proof (cases "n = 0")
    case True
    then have "digits_of n = ''0''" by (subst digits_of.simps) (simp add: digit_char_def char_of_48)
    with assms more show ?thesis
      by (cases r) (auto simp add: read_digits_def delim_def is_digit_def)
  next
    case False
    then have "c \<noteq> CHR ''0''" using hd_digits_of_zero [of n] cs by simp
    with c more cs show ?thesis by (simp add: read_digits_def)
  qed
qed

lemma hd_digits_of_not_minus: "digits_of n = c # cs \<Longrightarrow> c \<noteq> CHR ''-''"
  using hd_digits_of_digit [of n] by (auto simp add: is_digit_def)

lemma read_number_toString:
  assumes "delim r" and "\<bar>n\<bar> \<le> MAX_SAFE_INTEGER"
  shows "read_number (Number_toString n @ r) = Read (JNum n) r"
proof (cases "n < 0")
  case True
  then have "nat (- n) \<noteq> 0" by simp
  with True assms show ?thesis
    by (simp add: read_number_def Number_toString_def read_digits_digits_of)
next
  case False
  obtain c cs where cs: "digits_of (nat n) = c # cs"
    using digits_of_nonempty [of "nat n"] by (cases "digits_of (nat n)") auto
  have "c \<noteq> CHR ''-''" using cs by (rule hd_digits_of_not_minus)
  moreover have "read_digits (c # cs @ r) = Some (n, r)"
    using read_digits_digits_of [OF assms(1), of "nat n"] cs False by simp
  ultimately show ?thesis
    using False assms(2) cs
    by (simp add: read_number_def Number_toString_def)
qed

lemma Number_toString_head:
  "\<exists>c cs. Number_toString n = c # cs \<and> (c = CHR ''-'' \<or> is_digit c)"
proof (cases "n < 0")
  case True
  then show ?thesis by (simp add: Number_toString_def)
next
  case False
  obtain c cs where cs: "digits_of (nat n) = c # cs"
    using digits_of_nonempty [of "nat n"] by (cases "digits_of (nat n)") auto
  with hd_digits_of_digit [of "nat n"] False show ?thesis
    by (simp add: Number_toString_def)
qed

subsection \<open>JSON values\<close>

text \<open>
  A serialised value never starts with a closing bracket, so the reader can tell an
  empty array or object from a filled one by its second character.
\<close>

lemma stringify_head:
  "\<exists>c cs. JSON_stringify v = c # cs \<and> c \<noteq> CHR '']'' \<and> c \<noteq> CHR ''}''"
proof (cases v)
  case (JNum n)
  obtain c cs where "Number_toString n = c # cs" and "c = CHR ''-'' \<or> is_digit c"
    using Number_toString_head [of n] by blast
  with JNum show ?thesis by (auto simp add: is_digit_def)
qed (simp_all add: QuoteJSONString_def)

lemma stringify_elems_head:
  "vs \<noteq> [] \<Longrightarrow> \<exists>c cs. stringify_elems vs = c # cs \<and> c \<noteq> CHR '']''"
proof (cases vs)
  case Nil
  moreover assume "vs \<noteq> []"
  ultimately show ?thesis by simp
next
  case (Cons v ws)
  obtain c cs where "JSON_stringify v = c # cs" and "c \<noteq> CHR '']''"
    using stringify_head [of v] by blast
  with Cons show ?thesis by (cases ws) simp_all
qed

lemma stringify_members_head:
  "ms \<noteq> [] \<Longrightarrow> \<exists>cs. stringify_members ms = CHR 0x22 # cs"
proof (cases ms)
  case Nil
  moreover assume "ms \<noteq> []"
  ultimately show ?thesis by simp
next
  case (Cons m ws)
  then show ?thesis by (cases m; cases ws) (simp_all add: QuoteJSONString_def)
qed

lemma put_fresh: "k \<notin> set (map fst ps) \<Longrightarrow> put k v ps = ps @ [(k, v)]"
  by (induction ps) auto

lemma define_members_plain:
  "distinct (map fst (acc @ ms)) \<Longrightarrow> ''__proto__'' \<notin> set (map fst ms)
     \<Longrightarrow> define_members acc ms = Some (acc @ ms)"
proof (induction ms arbitrary: acc)
  case Nil
  then show ?case by simp
next
  case (Cons m ms)
  obtain k v where m: "m = (k, v)" by (cases m)
  from Cons.prems m have fresh: "k \<notin> set (map fst acc)" and k: "k \<noteq> ''__proto__''"
    by auto
  have "define_members acc (m # ms) = define_members (acc @ [(k, v)]) ms"
    using m k fresh by (simp add: put_fresh)
  also have "\<dots> = Some ((acc @ [(k, v)]) @ ms)"
    using Cons.prems m by (intro Cons.IH) auto
  finally show ?case using m by simp
qed

lemma make_object_plain:
  assumes "distinct (map fst ms)" and "''__proto__'' \<notin> set (map fst ms)"
  shows "make_object ms r = Read (JObj ms) r"
proof -
  have "count_list (map fst ms) ''__proto__'' = 0"
    using assms(2) by (simp add: count_list_0_iff)
  moreover have "define_members [] ms = Some ms"
    using define_members_plain [of "[]" ms] assms by simp
  ultimately show ?thesis by (simp add: make_object_def)
qed

lemma read_keyword_null: "read_keyword (''null'' @ r) = Read JNull r"
  by (simp add: read_keyword_def)

lemma read_keyword_true: "read_keyword (''true'' @ r) = Read (JBool True) r"
  by (simp add: read_keyword_def)

lemma read_keyword_false: "read_keyword (''false'' @ r) = Read (JBool False) r"
  by (simp add: read_keyword_def)

lemma delimited_Read: "delim r \<Longrightarrow> delimited (Read v r) = Read v r"
  by (simp add: delimited_def)

lemma read_value_scalar:
  assumes "scalar v" and "plain_json v" and "delim r"
  shows "read_value (Suc k) (JSON_stringify v @ r) = Read v r"
proof (cases v)
  case JNull
  then show ?thesis
    using assms(3) by (simp add: is_digit_def read_keyword_null [simplified] delimited_Read)
next
  case (JBool b)
  then show ?thesis
    using assms(3)
    by (cases b)
      (simp_all add: is_digit_def read_keyword_true [simplified] read_keyword_false [simplified]
        delimited_Read)
next
  case (JNum n)
  obtain c cs where cs: "Number_toString n = c # cs" and c: "c = CHR ''-'' \<or> is_digit c"
    using Number_toString_head [of n] by blast
  have "read_number (c # cs @ r) = Read (JNum n) r"
    using read_number_toString [of r n] assms JNum cs by simp
  moreover have "c \<noteq> CHR 0x22" "c \<noteq> CHR ''[''" "c \<noteq> CHR ''{''"
    using c by (auto simp add: is_digit_def)
  ultimately show ?thesis
    using JNum cs c assms(3) by (simp add: delimited_Read)
qed (use assms in simp_all)

text \<open>
  The fuel only has to cover the length of the serialised value: every level of
  nesting and every further element consumes at least one character.
\<close>

lemma read_back:
  "plain_json v \<Longrightarrow> length (JSON_stringify v) \<le> k \<Longrightarrow> (scalar v \<Longrightarrow> delim r)
     \<Longrightarrow> read_value k (JSON_stringify v @ r) = Read v r"
  and "vs \<noteq> [] \<Longrightarrow> plain_elems vs \<Longrightarrow> length (stringify_elems vs) < k
     \<Longrightarrow> read_elems k (stringify_elems vs @ CHR '']'' # r) = Read vs r"
  and "ms \<noteq> [] \<Longrightarrow> plain_members ms \<Longrightarrow> length (stringify_members ms) < k
     \<Longrightarrow> read_members k (stringify_members ms @ CHR ''}'' # r) = Read ms r"
proof (induction v and vs and ms arbitrary: k r and k r and k r
    rule: JSON_stringify_stringify_elems_stringify_members.induct)
  case 1
  then obtain k' where "k = Suc k'" by (cases k) auto
  with 1 show ?case using read_value_scalar [of JNull r k'] by simp
next
  case (2 b)
  then obtain k' where "k = Suc k'" by (cases k) (auto split: if_splits)
  with 2 show ?case using read_value_scalar [of "JBool b" r k'] by simp
next
  case (3 n)
  obtain c cs where "Number_toString n = c # cs" using Number_toString_head [of n] by blast
  with 3 obtain k' where "k = Suc k'" by (cases k) auto
  with 3 show ?case using read_value_scalar [of "JNum n" r k'] by simp
next
  case (4 s)
  then obtain k' where "k = Suc k'" by (cases k) (auto simp add: QuoteJSONString_def)
  then show ?case
    by (simp add: QuoteJSONString_def read_literal_quoted map_result_Read)
next
  case (5 vs)
  from 5(3) obtain k' where k: "k = Suc k'" by (cases k) auto
  show ?case
  proof (cases "vs = []")
    case True
    with k show ?thesis by simp
  next
    case False
    obtain c cs where cs: "stringify_elems vs = c # cs" and c: "c \<noteq> CHR '']''"
      using stringify_elems_head [OF False] by blast
    have "read_elems k' (stringify_elems vs @ CHR '']'' # r) = Read vs r"
      using False 5(2,3) k by (intro 5(1)) simp_all
    with cs c k show ?thesis by (simp add: map_result_Read)
  qed
next
  case (6 ms)
  from 6(3) obtain k' where k: "k = Suc k'" by (cases k) auto
  show ?case
  proof (cases "ms = []")
    case True
    with k show ?thesis by simp
  next
    case False
    obtain cs where cs: "stringify_members ms = CHR 0x22 # cs"
      using stringify_members_head [OF False] by blast
    have "read_members k' (stringify_members ms @ CHR ''}'' # r) = Read ms r"
      using False 6(2,3) k by (intro 6(1)) simp_all
    moreover have "make_object ms r = Read (JObj ms) r"
      using 6(2) by (intro make_object_plain) simp_all
    ultimately show ?thesis using cs k by simp
  qed
next
  case 7
  then show ?case by simp
next
  case (8 v)
  from 8(4) obtain k' where k: "k = Suc k'" by (cases k) auto
  have "read_value k' (JSON_stringify v @ CHR '']'' # r) = Read v (CHR '']'' # r)"
    using 8(3,4) k by (intro 8(1)) (simp_all add: delim_def)
  with k show ?case by simp
next
  case (9 v w vs)
  from 9(5) obtain k' where k: "k = Suc k'" by (cases k) auto
  let ?rest = "stringify_elems (w # vs) @ CHR '']'' # r"
  have "read_value k' (JSON_stringify v @ CHR '','' # ?rest) = Read v (CHR '','' # ?rest)"
    using 9(4,5) k by (intro 9(1)) (simp_all add: delim_def)
  moreover have "read_elems k' ?rest = Read (w # vs) r"
    using 9(4,5) k by (intro 9(2)) simp_all
  ultimately show ?case using k by (simp add: map_result_Read)
next
  case 10
  then show ?case by simp
next
  case (11 key v)
  from 11(4) obtain k' where k: "k = Suc k'" by (cases k) auto
  have "read_value k' (JSON_stringify v @ CHR ''}'' # r) = Read v (CHR ''}'' # r)"
    using 11(3,4) k by (intro 11(1)) (simp_all add: delim_def)
  with k show ?case
    by (simp add: QuoteJSONString_def read_literal_quoted)
next
  case (12 key v m ms)
  from 12(5) obtain k' where k: "k = Suc k'" by (cases k) auto
  let ?rest = "stringify_members (m # ms) @ CHR ''}'' # r"
  have "read_value k' (JSON_stringify v @ CHR '','' # ?rest) = Read v (CHR '','' # ?rest)"
    using 12(4,5) k by (intro 12(1)) (simp_all add: delim_def)
  moreover have "read_members k' ?rest = Read (m # ms) r"
    using 12(4,5) k by (intro 12(2)) simp_all
  ultimately show ?case using k
    by (simp add: QuoteJSONString_def read_literal_quoted map_result_Read)
qed

lemma read_array_stringify:
  assumes "plain_elems as"
  shows "read_array (JSON_stringify (JArr as) @ r) = Read as r"
proof -
  have "read_value (length (JSON_stringify (JArr as) @ r)) (JSON_stringify (JArr as) @ r)
          = Read (JArr as) r"
    using assms by (intro read_back(1)) simp_all
  then show ?thesis by (simp add: read_array_def)
qed

subsection \<open>The template\<close>

lemma parse_block_handler_text:
  assumes "plain_name n"
    and "\<forall>r. rd (src h @ CHR '')'' # r) = Read f (CHR '')'' # r)"
    and "plain_elems as"
  shows "parse_block rd (handler_text src n h as @ r) = Read (n, f, as) r"
proof -
  have lit: "\<And>t. read_literal (CHR 0x27) (n @ CHR 0x27 # t) = Read n t"
    using assms(1) by (intro read_literal_plain) (simp add: plain_name_def)
  have arr: "\<And>t. read_array (JSON_stringify (JArr as) @ t) = Read as t"
    using assms(3) by (rule read_array_stringify)
  show ?thesis
    unfolding parse_block_def handler_text_def
    by (simp add: expecting_def lit arr assms(2) del: JSON_stringify.simps)
qed

lemma handler_text_nonempty: "\<exists>k. length (handler_text src n h as) = Suc k"
  by (simp add: handler_text_def)

lemma run_generated_handler:
  assumes "plain_name n"
    and "\<forall>r. rd (src h @ CHR '')'' # r) = Read f (CHR '')'' # r)"
    and "plain_elems as"
    and "toReplay pg = Some q"
  shows "run_handler rd (handler_text src n h as) el ev pg =
           Completed (pg\<lparr>toReplay :=
             Some (q @ [\<lparr>name = n, handler = f, args = as, target = el, event = ev\<rparr>])\<rparr>)"
proof -
  have blk: "parse_block rd (handler_text src n h as) = Read (n, f, as) []"
    using parse_block_handler_text [of n rd src h f as "[]"] assms(1,2,3) by simp
  obtain k where k: "length (handler_text src n h as) = Suc k"
    using handler_text_nonempty [of src n h as] by blast
  have "parse_body (length (handler_text src n h as)) rd (handler_text src n h as)
          = Read [(n, f, as)] []"
    by (simp add: k blk)
  then show ?thesis
    by (simp add: run_handler_def push_entry_def assms(4))
qed

text \<open>Without the queue the same handler throws, and the page stays as it was.\<close>

lemma run_generated_handler_without_queue:
  assumes "plain_name n"
    and "\<forall>r. rd (src h @ CHR '')'' # r) = Read f (CHR '')'' # r)"
    and "plain_elems as"
    and "toReplay pg = None"
  shows "run_handler rd (handler_text src n h as) el ev pg = Threw TypeError pg"
proof -
  have blk: "parse_block rd (handler_text src n h as) = Read (n, f, as) []"
    using parse_block_handler_text [of n rd src h f as "[]"] assms(1,2,3) by simp
  obtain k where k: "length (handler_text src n h as) = Suc k"
    using handler_text_nonempty [of src n h as] by blast
  have "parse_body (length (handler_text src n h as)) rd (handler_text src n h as)
          = Read [(n, f, as)] []"
    by (simp add: k blk)
  then show ?thesis
    by (simp add: run_handler_def push_entry_def assms(4))
qed

section \<open>What \<open>ssrDefaultProps\<close> returns\<close>

lemma ssrDefaultProps_returns:
  assumes "beh (wire inp) (world s) = (Inr r, w')"
  shows "ssrDefaultProps beh inp s =
           (Inr (Obj NullProto
                   [(''state'', Ext (state inp)),
                    (''actions'', Obj NullProto []),
                    (''dispatch'', Ext (dispatch inp)),
                    (''render'', Ext r),
                    (''_wire'', Ext (wire inp))]),
            \<lparr>world = w', called = called s @ [wire inp]\<rparr>)"
  using assms
  by (simp add: ssrDefaultProps_def call0_def Object_create_null_def object_literal_def
      put_all_def)

lemma ssrDefaultProps_throws:
  assumes "beh (wire inp) (world s) = (Inl e, w')"
  shows "ssrDefaultProps beh inp s = (Inl e, \<lparr>world = w', called = called s @ [wire inp]\<rparr>)"
  using assms by (simp add: ssrDefaultProps_def call0_def)

lemma fresh_wire_returns: "fresh_wire 3 0 = (Inr 103, 1)"
  by (simp add: fresh_wire_def)

text \<open>
  C2. When \<open>wire()\<close> returns \<open>r\<close>, \<open>ssrDefaultProps\<close> returns a props object whose
  \<open>state\<close> is the given state, whose \<open>actions\<close> is an object with no key at all, whose
  \<open>dispatch\<close> is the given dispatch function and whose \<open>render\<close> is \<open>r\<close>, the result of
  \<open>wire()\<close>.
\<close>

theorem ssrDefaultProps_fields:
  assumes "beh (wire inp) (world s) = (Inr r, w')"
  shows "\<exists>props acts s'.
           ssrDefaultProps beh inp s = (Inr props, s') \<and>
           get_prop props ''state'' = Some (Ext (state inp)) \<and>
           get_prop props ''actions'' = Some acts \<and> exposed_keys acts = [] \<and>
           get_prop props ''dispatch'' = Some (Ext (dispatch inp)) \<and>
           get_prop props ''render'' = Some (Ext r)"
  using ssrDefaultProps_returns [of beh inp s r w'] assms
  by (simp add: get_prop_def exposed_keys_def)

theorem ssrDefaultProps_fields_witness:
  "\<exists>props acts s'.
     ssrDefaultProps fresh_wire \<lparr>state = 1, dispatch = 2, wire = 3\<rparr> \<lparr>world = 0, called = []\<rparr>
       = (Inr props, s') \<and>
     get_prop props ''state'' = Some (Ext 1) \<and>
     get_prop props ''actions'' = Some acts \<and> exposed_keys acts = [] \<and>
     get_prop props ''dispatch'' = Some (Ext 2) \<and>
     get_prop props ''render'' = Some (Ext 103)"
  using ssrDefaultProps_fields
    [of fresh_wire "\<lparr>state = 1, dispatch = 2, wire = 3\<rparr>" "\<lparr>world = 0, called = []\<rparr>" 103 1]
  by (simp add: fresh_wire_returns)

text \<open>
  C5. \<open>ssrDefaultProps\<close> does not copy the state: when \<open>wire()\<close> returns, the \<open>state\<close>
  field of the props object is the caller's own handle \<open>state inp\<close>, the very value that was
  passed in, and not an object that the module allocated. Every component that reads
  \<open>props.state\<close> therefore reads the caller's one state object.
\<close>

theorem ssrDefaultProps_shares_state:
  assumes "beh (wire inp) (world s) = (Inr r, w')"
  shows "\<exists>props s'.
           ssrDefaultProps beh inp s = (Inr props, s') \<and>
           get_prop props ''state'' = Some (Ext (state inp)) \<and>
           handle (the (get_prop props ''state'')) = state inp"
  using ssrDefaultProps_returns [of beh inp s r w'] assms
  by (simp add: get_prop_def)

theorem ssrDefaultProps_shares_state_witness:
  "\<exists>props s'.
     ssrDefaultProps fresh_wire \<lparr>state = 1, dispatch = 2, wire = 3\<rparr> \<lparr>world = 0, called = []\<rparr>
       = (Inr props, s') \<and>
     get_prop props ''state'' = Some (Ext 1) \<and>
     handle (the (get_prop props ''state'')) = 1"
  using ssrDefaultProps_shares_state
    [of fresh_wire "\<lparr>state = 1, dispatch = 2, wire = 3\<rparr>" "\<lparr>world = 0, called = []\<rparr>" 103 1]
  by (simp add: fresh_wire_returns)

text \<open>
  C7, as stated, fails: the props object that \<open>ssrDefaultProps\<close> returns has no \<open>cn\<close>
  field. At the input below the returned object is written out; \<open>cn\<close> is neither an own
  nor an inherited key of it.
\<close>

theorem ssrDefaultProps_has_no_cn:
  "ssrDefaultProps fresh_wire \<lparr>state = 1, dispatch = 2, wire = 3\<rparr> \<lparr>world = 0, called = []\<rparr>
     = (Inr (Obj NullProto
               [(''state'', Ext 1), (''actions'', Obj NullProto []), (''dispatch'', Ext 2),
                (''render'', Ext 103), (''_wire'', Ext 3)]),
        \<lparr>world = 1, called = [3]\<rparr>) \<and>
   get_prop
     (Obj NullProto
        [(''state'', Ext 1), (''actions'', Obj NullProto []), (''dispatch'', Ext 2),
         (''render'', Ext (103 :: nat)), (''_wire'', Ext 3)]) ''cn'' = None \<and>
   ''cn'' \<notin> set (exposed_keys
     (Obj NullProto
        [(''state'', Ext 1), (''actions'', Obj NullProto []), (''dispatch'', Ext 2),
         (''render'', Ext (103 :: nat)), (''_wire'', Ext 3)]))"
  using ssrDefaultProps_returns
    [of fresh_wire "\<lparr>state = 1, dispatch = 2, wire = 3\<rparr>" "\<lparr>world = 0, called = []\<rparr>" 103 1]
  by (simp add: fresh_wire_returns get_prop_def exposed_keys_def)

text \<open>
  C7, amended. When \<open>wire()\<close> returns, the props object produced by \<open>ssrDefaultProps\<close> has
  exactly the own fields \<open>state\<close>, \<open>actions\<close>, \<open>dispatch\<close>, \<open>render\<close> and \<open>_wire\<close>, in this
  order; \<open>cn\<close> is not among its fields, own or inherited. The connect capability is not
  injected by this function.
\<close>

theorem ssrDefaultProps_own_fields:
  assumes "beh (wire inp) (world s) = (Inr r, w')"
  shows "\<exists>props s'.
           ssrDefaultProps beh inp s = (Inr props, s') \<and>
           map fst (own props) = [''state'', ''actions'', ''dispatch'', ''render'', ''_wire''] \<and>
           get_prop props ''cn'' = None \<and>
           ''cn'' \<notin> set (exposed_keys props)"
  using ssrDefaultProps_returns [of beh inp s r w'] assms
  by (simp add: get_prop_def exposed_keys_def)

theorem ssrDefaultProps_own_fields_witness:
  "\<exists>props s'.
     ssrDefaultProps fresh_wire \<lparr>state = 1, dispatch = 2, wire = 3\<rparr> \<lparr>world = 0, called = []\<rparr>
       = (Inr props, s') \<and>
     map fst (own props) = [''state'', ''actions'', ''dispatch'', ''render'', ''_wire''] \<and>
     get_prop props ''cn'' = None \<and>
     ''cn'' \<notin> set (exposed_keys props)"
  using ssrDefaultProps_own_fields
    [of fresh_wire "\<lparr>state = 1, dispatch = 2, wire = 3\<rparr>" "\<lparr>world = 0, called = []\<rparr>" 103 1]
  by (simp add: fresh_wire_returns)

text \<open>
  C9. When \<open>wire()\<close> returns, the props object and the \<open>actions\<close> object inside it both
  have a null prototype, so neither exposes an inherited property: the keys of the
  props object are exactly \<open>state\<close>, \<open>actions\<close>, \<open>dispatch\<close>, \<open>render\<close> and \<open>_wire\<close>, and the
  \<open>actions\<close> object has no key.
\<close>

theorem ssrDefaultProps_null_prototypes:
  assumes "beh (wire inp) (world s) = (Inr r, w')"
  shows "\<exists>props acts s'.
           ssrDefaultProps beh inp s = (Inr props, s') \<and>
           proto props = NullProto \<and>
           exposed_keys props = [''state'', ''actions'', ''dispatch'', ''render'', ''_wire''] \<and>
           get_prop props ''actions'' = Some acts \<and>
           proto acts = NullProto \<and>
           exposed_keys acts = []"
  using ssrDefaultProps_returns [of beh inp s r w'] assms
  by (simp add: get_prop_def exposed_keys_def)

theorem ssrDefaultProps_null_prototypes_witness:
  "\<exists>props acts s'.
     ssrDefaultProps fresh_wire \<lparr>state = 1, dispatch = 2, wire = 3\<rparr> \<lparr>world = 0, called = []\<rparr>
       = (Inr props, s') \<and>
     proto props = NullProto \<and>
     exposed_keys props = [''state'', ''actions'', ''dispatch'', ''render'', ''_wire''] \<and>
     get_prop props ''actions'' = Some acts \<and>
     proto acts = NullProto \<and>
     exposed_keys acts = []"
  using ssrDefaultProps_null_prototypes
    [of fresh_wire "\<lparr>state = 1, dispatch = 2, wire = 3\<rparr>" "\<lparr>world = 0, called = []\<rparr>" 103 1]
  by (simp add: fresh_wire_returns)

text \<open>
  C10, as stated, fails: \<open>render\<close> and \<open>_wire\<close> are not distinct for every input. When
  \<open>wire()\<close> returns the wire function itself (\<open>self_wire\<close>), the two fields hold the same
  value.
\<close>

theorem self_wire_render_is_wire:
  "ssrDefaultProps self_wire \<lparr>state = 1, dispatch = 2, wire = 3\<rparr> \<lparr>world = 0, called = []\<rparr>
     = (Inr (Obj NullProto
               [(''state'', Ext 1), (''actions'', Obj NullProto []), (''dispatch'', Ext 2),
                (''render'', Ext 3), (''_wire'', Ext 3)]),
        \<lparr>world = 0, called = [3]\<rparr>) \<and>
   get_prop
     (Obj NullProto
        [(''state'', Ext 1), (''actions'', Obj NullProto []), (''dispatch'', Ext 2),
         (''render'', Ext (3 :: nat)), (''_wire'', Ext 3)]) ''render''
   = get_prop
     (Obj NullProto
        [(''state'', Ext 1), (''actions'', Obj NullProto []), (''dispatch'', Ext 2),
         (''render'', Ext (3 :: nat)), (''_wire'', Ext 3)]) ''_wire''"
  using ssrDefaultProps_returns
    [of self_wire "\<lparr>state = 1, dispatch = 2, wire = 3\<rparr>" "\<lparr>world = 0, called = []\<rparr>" 3 0]
  by (simp add: self_wire_def get_prop_def)

text \<open>
  C10, amended. When \<open>wire()\<close> returns \<open>r\<close>, the \<open>_wire\<close> field of the props object is the
  wire function itself and the \<open>render\<close> field is \<open>r\<close>; \<open>ssrDefaultProps\<close> calls \<open>wire\<close>
  exactly once and calls nothing else; \<open>render\<close> and \<open>_wire\<close> are the same value exactly
  when \<open>wire()\<close> returned the wire function itself.
\<close>

theorem ssrDefaultProps_render_and_wire:
  assumes "beh (wire inp) (world s) = (Inr r, w')"
  shows "\<exists>props s'.
           ssrDefaultProps beh inp s = (Inr props, s') \<and>
           get_prop props ''_wire'' = Some (Ext (wire inp)) \<and>
           get_prop props ''render'' = Some (Ext r) \<and>
           called s' = called s @ [wire inp] \<and>
           world s' = w' \<and>
           (get_prop props ''render'' = get_prop props ''_wire'' \<longleftrightarrow> r = wire inp)"
  using ssrDefaultProps_returns [of beh inp s r w'] assms
  by (simp add: get_prop_def)

theorem ssrDefaultProps_render_and_wire_witness:
  "\<exists>props s'.
     ssrDefaultProps fresh_wire \<lparr>state = 1, dispatch = 2, wire = 3\<rparr> \<lparr>world = 0, called = []\<rparr>
       = (Inr props, s') \<and>
     get_prop props ''_wire'' = Some (Ext 3) \<and>
     get_prop props ''render'' = Some (Ext 103) \<and>
     called s' = [3] \<and>
     world s' = 1 \<and>
     get_prop props ''render'' \<noteq> get_prop props ''_wire''"
  using ssrDefaultProps_render_and_wire
    [of fresh_wire "\<lparr>state = 1, dispatch = 2, wire = 3\<rparr>" "\<lparr>world = 0, called = []\<rparr>" 103 1]
  by (simp add: fresh_wire_returns)

section \<open>Calling \<open>ssrDispatch\<close>\<close>

text \<open>
  The README's example, \<^verbatim>\<open>dispatch("fetchPosts", FetchPostsSSR, ...[1, 2])\<close>, with a handler
  whose source text is \<^verbatim>\<open>function(event, action) { action(); }\<close>, and the serialisation of
  an argument list that needs escapes.
\<close>

lemma ssrDispatch_example:
  "fst (ssrDispatch text_of ''fetchPosts'' ''function(event, action) { action(); }''
          [JNum 1, JNum 2] s)
   = ''{\<newline>'' @
     ''    const name = 'fetchPosts';\<newline>'' @
     ''    const handler = (function(event, action) { action(); });\<newline>'' @
     ''    const args = [1,2];\<newline>'' @
     ''    window.dispatcher.toReplay.push({\<newline>'' @
     ''        name,\<newline>'' @
     ''        handler,\<newline>'' @
     ''        args,\<newline>'' @
     ''        target: this,\<newline>'' @
     ''        event,\<newline>'' @
     ''    });\<newline>'' @
     ''}''"
  by (simp add: ssrDispatch_def handler_text_def text_of_def Number_toString_def digits_of.simps
      digit_char_literal)

lemma JSON_stringify_example:
  "JSON_stringify (JArr [JNum (- 20), JStr [CHR ''a'', CHR 0x0A, CHR 0x22, CHR 0x01],
                         JObj [(''k'', JNull), (''l'', JArr [JBool True, JBool False])]])
   = ''[-20,'' @ [CHR 0x22] @ ''a'' @ [CHR 0x5C] @ ''n'' @ [CHR 0x5C, CHR 0x22, CHR 0x5C] @ ''u0001''
       @ [CHR 0x22] @ '',{'' @ [CHR 0x22] @ ''k'' @ [CHR 0x22] @ '':null,'' @ [CHR 0x22] @ ''l''
       @ [CHR 0x22] @ '':[true,false]}]''"
  using char_of_char [of "CHR ''0''", where ?'a = nat] char_of_char [of "CHR ''1''", where ?'a = nat]
  by (simp add: Number_toString_def digits_of.simps digit_char_literal QuoteJSONString_def
      json_escape_def hex_digit_def)



section \<open>Running the generated handler\<close>

lemma example_reader_reads:
  "\<forall>r. example_reader (text_of ''function(event, action) { action(); }'' @ CHR '')'' # r)
        = Read ''function(event, action) { action(); }'' (CHR '')'' # r)"
  by (simp add: example_reader_def text_of_def)

lemmas handler_eval =
  ssrDispatch_def run_handler_def handler_text_def parse_block_def expecting_def read_array_def
  example_reader_def text_of_def map_result_def push_entry_def Number_toString_def
  digits_of.simps digit_char_literal QuoteJSONString_def json_escape_def single_escape_def
  delimited_def delim_def read_number_def read_digits_def is_digit_def digit_value_def
  MAX_SAFE_INTEGER_def read_keyword_def make_object_def hex4_def hex_value_def







text \<open>
  C4, as stated, fails: the name is not free of restrictions on its characters. For the
  two-character name backslash, \<open>n\<close> the generated literal is \<open>'\n'\<close>, an escape: the
  pushed entry carries the one-character name line feed.
\<close>

theorem escaped_name_is_changed:
  "run_handler example_reader
     (fst (ssrDispatch text_of [CHR 0x5C, CHR ''n''] ''function(event, action) { action(); }''
             [JNum 1, JNum 2] \<lparr>world = (), called = []\<rparr>))
     ''button'' ''click'' \<lparr>toReplay = Some []\<rparr>
   = Completed \<lparr>toReplay = Some
       [\<lparr>name = [CHR 0x0A], handler = ''function(event, action) { action(); }'',
          args = [JNum 1, JNum 2], target = ''button'', event = ''click''\<rparr>]\<rparr> \<and>
   [CHR 0x0A] \<noteq> [CHR 0x5C, CHR ''n'']"
  by (simp add: handler_eval)

text \<open>
  C4, amended. For every name without single quote, backslash and line break (with a
  handler and arguments as in C1): the \<open>name\<close> of the entry that the generated handler
  pushes is the name that was passed to \<open>ssrDispatch\<close>.
\<close>

theorem replayed_name_is_the_name:
  assumes "plain_name n"
    and "\<forall>r. rd (src h @ CHR '')'' # r) = Read f (CHR '')'' # r)"
    and "plain_elems as"
    and "toReplay pg = Some q"
  shows "\<exists>pg' e.
           run_handler rd (fst (ssrDispatch src n h as s)) el ev pg = Completed pg' \<and>
           toReplay pg' = Some (q @ [e]) \<and>
           name e = n"
  using run_generated_handler [of n rd src h f as pg q el ev] assms
  by (simp add: ssrDispatch_def)

theorem replayed_name_is_the_name_witness:
  "\<exists>pg' e.
     run_handler example_reader
       (fst (ssrDispatch text_of ''fetch posts, 100%'' ''function(event, action) { action(); }''
               [] \<lparr>world = (), called = []\<rparr>))
       ''button'' ''click'' \<lparr>toReplay = Some []\<rparr> = Completed pg' \<and>
     toReplay pg' = Some ([] @ [e]) \<and>
     name e = ''fetch posts, 100%''"
  using replayed_name_is_the_name
    [of "''fetch posts, 100%''" example_reader text_of
        "''function(event, action) { action(); }''"
        "''function(event, action) { action(); }''" "[]"
        "\<lparr>toReplay = Some []\<rparr>" "[]" "\<lparr>world = (), called = []\<rparr>" "''button''" "''click''"]
    example_reader_reads
  by (simp add: plain_name_def)

text \<open>
  C6, as stated, fails: not every generated handler appends a single entry. The name is
  copied into the text between two single quotes, so a name that closes the quote can
  carry statements of its own. The name below ends the first block after a push and
  opens a second block: one firing of the handler pushes two entries.
\<close>

theorem quoted_name_pushes_twice:
  "run_handler example_reader
     (fst (ssrDispatch text_of
             (''a'' @ [CHR 0x27] @ '';\<newline>'' @
              ''    const handler = (function(event, action) { action(); });\<newline>'' @
              ''    const args = [];\<newline>'' @
              ''    window.dispatcher.toReplay.push({\<newline>'' @
              ''        name,\<newline>'' @
              ''        handler,\<newline>'' @
              ''        args,\<newline>'' @
              ''        target: this,\<newline>'' @
              ''        event,\<newline>'' @
              ''    });\<newline>'' @
              ''}{\<newline>'' @
              ''    const name = '' @ [CHR 0x27] @ ''b'')
             ''function(event, action) { action(); }'' [JNum 1, JNum 2]
             \<lparr>world = (), called = []\<rparr>))
     ''button'' ''click'' \<lparr>toReplay = Some []\<rparr>
   = Completed \<lparr>toReplay = Some
       [\<lparr>name = ''a'', handler = ''function(event, action) { action(); }'', args = [],
          target = ''button'', event = ''click''\<rparr>,
        \<lparr>name = ''b'', handler = ''function(event, action) { action(); }'',
          args = [JNum 1, JNum 2], target = ''button'', event = ''click''\<rparr>]\<rparr>"
  by (simp add: handler_eval)

text \<open>
  C6, amended. For names without single quote, backslash and line break (with handlers
  and arguments as in C1): a generated handler reaches the replay queue only as
  \<open>window.dispatcher.toReplay\<close> and its only operation on it is the push of a single
  entry. The entries that were in the queue stay, in their order, and the new entry
  comes last; the rest of the page is unchanged. When two handlers fire one after the
  other, their entries are in the queue in the order of firing.
\<close>

theorem generated_handlers_append_in_order:
  assumes "plain_name n1"
    and "\<forall>r. rd (src h1 @ CHR '')'' # r) = Read f1 (CHR '')'' # r)"
    and "plain_elems as1"
    and "plain_name n2"
    and "\<forall>r. rd (src h2 @ CHR '')'' # r) = Read f2 (CHR '')'' # r)"
    and "plain_elems as2"
    and "toReplay pg = Some q"
  shows "\<exists>pg1 pg2 e1 e2.
           run_handler rd (fst (ssrDispatch src n1 h1 as1 s)) el1 ev1 pg = Completed pg1 \<and>
           toReplay pg1 = Some (q @ [e1]) \<and>
           page.more pg1 = page.more pg \<and>
           run_handler rd (fst (ssrDispatch src n2 h2 as2 s)) el2 ev2 pg1 = Completed pg2 \<and>
           toReplay pg2 = Some (q @ [e1, e2]) \<and>
           page.more pg2 = page.more pg"
proof -
  let ?e1 = "\<lparr>name = n1, handler = f1, args = as1, target = el1, event = ev1\<rparr>"
  let ?e2 = "\<lparr>name = n2, handler = f2, args = as2, target = el2, event = ev2\<rparr>"
  let ?pg1 = "pg\<lparr>toReplay := Some (q @ [?e1])\<rparr>"
  let ?pg2 = "?pg1\<lparr>toReplay := Some ((q @ [?e1]) @ [?e2])\<rparr>"
  have first: "run_handler rd (fst (ssrDispatch src n1 h1 as1 s)) el1 ev1 pg = Completed ?pg1"
    using run_generated_handler [of n1 rd src h1 f1 as1 pg q el1 ev1] assms(1,2,3,7)
    by (simp add: ssrDispatch_def)
  have "toReplay ?pg1 = Some (q @ [?e1])" by simp
  then have second:
    "run_handler rd (fst (ssrDispatch src n2 h2 as2 s)) el2 ev2 ?pg1 = Completed ?pg2"
    using run_generated_handler [of n2 rd src h2 f2 as2 ?pg1 "q @ [?e1]" el2 ev2] assms(4,5,6)
    by (simp add: ssrDispatch_def)
  have "toReplay ?pg1 = Some (q @ [?e1]) \<and> page.more ?pg1 = page.more pg \<and>
        toReplay ?pg2 = Some (q @ [?e1, ?e2]) \<and> page.more ?pg2 = page.more pg"
    by simp
  with first second show ?thesis by blast
qed

theorem generated_handlers_append_in_order_witness:
  "\<exists>pg1 pg2 e1 e2.
     run_handler example_reader
       (fst (ssrDispatch text_of ''fetchPosts'' ''function(event, action) { action(); }''
               [JNum 1, JNum 2] \<lparr>world = (), called = []\<rparr>))
       ''button'' ''click'' \<lparr>toReplay = Some []\<rparr> = Completed pg1 \<and>
     toReplay pg1 = Some ([] @ [e1]) \<and>
     page.more pg1 = page.more \<lparr>toReplay = Some []\<rparr> \<and>
     run_handler example_reader
       (fst (ssrDispatch text_of ''route'' ''function(event, action) { action(); }''
               [JStr ''/posts''] \<lparr>world = (), called = []\<rparr>))
       ''link'' ''tap'' pg1 = Completed pg2 \<and>
     toReplay pg2 = Some ([] @ [e1, e2]) \<and>
     page.more pg2 = page.more \<lparr>toReplay = Some []\<rparr>"
  using generated_handlers_append_in_order
    [of "''fetchPosts''" example_reader text_of "''function(event, action) { action(); }''"
        "''function(event, action) { action(); }''" "[JNum 1, JNum 2]"
        "''route''" "''function(event, action) { action(); }''"
        "''function(event, action) { action(); }''" "[JStr ''/posts'']"
        "\<lparr>toReplay = Some []\<rparr>" "[]" "\<lparr>world = (), called = []\<rparr>"
        "''button''" "''click''" "''link''" "''tap''"]
    example_reader_reads
  by (simp add: plain_name_def MAX_SAFE_INTEGER_def)

end
